theory Spec2Isabelle
  imports Main "HOL-Library.Sublist"
begin

section \<open>Python string primitives used by the server\<close>

text \<open>
  Python \<open>str\<close> values are modelled as \<open>string\<close>, each \<open>char\<close> read as a code point
  below 256. \<open>isspace\<close> is Python's \<open>str.isspace\<close> on those code points: the characters
  that \<open>str.strip()\<close> removes.
\<close>

definition isspace :: "char \<Rightarrow> bool" where
  "isspace c = ((of_char c :: nat) \<in> set [9, 10, 11, 12, 13, 28, 29, 30, 31, 32, 133, 160])"

text \<open>\<open>s.strip()\<close>: leading and trailing whitespace removed.\<close>

definition str_strip :: "string \<Rightarrow> string" where
  "str_strip s = rev (dropWhile isspace (rev (dropWhile isspace s)))"

text \<open>\<open>s.startswith(p)\<close>.\<close>

definition startswith :: "string \<Rightarrow> string \<Rightarrow> bool" where
  "startswith s p = prefix p s"

text \<open>
  \<open>s.split(sep)\<close> for a separator of one character, as in \<open>query.split("|")\<close>: the
  pieces between the separators, in order; never the empty list.
\<close>

fun str_split :: "string \<Rightarrow> char \<Rightarrow> string list" where
  "str_split [] sep = [[]]"
| "str_split (c # cs) sep =
     (if c = sep then [] # str_split cs sep
      else (case str_split cs sep of
              [] \<Rightarrow> [[c]]
            | x # xs \<Rightarrow> (c # x) # xs))"

text \<open>
  \<open>s.replace(old, new)\<close>: the occurrences of \<open>old\<close> are found from left to right and do
  not overlap. With an empty \<open>old\<close>, Python puts \<open>new\<close> before every character and at
  the end.
\<close>

function str_replace_ne :: "string \<Rightarrow> string \<Rightarrow> string \<Rightarrow> string" where
  "str_replace_ne s old new =
     (case s of
        [] \<Rightarrow> []
      | c # cs \<Rightarrow>
          (if old \<noteq> [] \<and> prefix old s then new @ str_replace_ne (drop (length old) s) old new
           else c # str_replace_ne cs old new))"
  by pat_completeness auto
termination
  by (relation "measure (\<lambda>(s, old, new). length s)") auto

declare str_replace_ne.simps [simp del]

definition str_replace :: "string \<Rightarrow> string \<Rightarrow> string \<Rightarrow> string" where
  "str_replace s old new =
     (if old = [] then new @ concat (map (\<lambda>c. c # new) s)
      else str_replace_ne s old new)"

text \<open>\<open>sub in s\<close> for strings: \<open>sub\<close> occurs in \<open>s\<close> as a contiguous piece.\<close>

fun str_contains :: "string \<Rightarrow> string \<Rightarrow> bool" where
  "str_contains [] sub = (sub = [])"
| "str_contains (c # cs) sub = (prefix sub (c # cs) \<or> str_contains cs sub)"

section \<open>Errors, log records and the database client\<close>

text \<open>
  Every failure the server raises itself is a Python \<open>ValueError\<close> with a message. The
  specification's names for them are: \<open>ConfigurationError\<close> (message
  "Client id, client secret and authority id are required"), \<open>UnknownOperation\<close>
  ("Unknown tool: <name>"), \<open>MissingArgument\<close> ("Missing database argument",
  "Missing database or query argument", "Missing database or table argument") and
  \<open>ForbiddenCommand\<close> ("Should not use management commands"). The client library
  raises through the server too; an exception of another class is \<open>OtherError\<close> with
  its text.
\<close>

datatype error = ValueError string | OtherError string

text \<open>
  Exceptions raised inside the \<open>try\<close> blocks of the gateway: a failure of the database
  client, with the text that \<open>str(e)\<close> gives, or an index out of range.
\<close>

datatype exn = KustoError string | IndexError

fun str_exn :: "exn \<Rightarrow> string" where
  "str_exn (KustoError m) = m"
| "str_exn IndexError = ''list index out of range''"

text \<open>
  What a gateway operation does besides returning: records written to the logger and
  commands handed to \<open>kusto_client.execute(database, command)\<close>, in order.
\<close>

datatype level = DEBUG | ERROR

datatype event = Log level string | Execute string string

text \<open>
  \<open>self.kcsb\<close>: what a connection string builder of the client library holds once it
  is built, either the cluster alone or the cluster with the application's id, its key
  and the authority.
\<close>

datatype KustoConnectionStringBuilder =
    NoAuthentication string
  | AadApplicationKey string string string string

record KustoDatabase =
  kcsb :: KustoConnectionStringBuilder

text \<open>
  The two class methods of \<open>KustoConnectionStringBuilder\<close> that the initialiser calls.
  They belong to the client library and check their arguments: each gives a builder or
  raises.
\<close>

record builders =
  with_no_authentication :: "string \<Rightarrow> error + KustoConnectionStringBuilder"
  with_aad_application_key_authentication ::
    "string \<Rightarrow> string \<Rightarrow> string \<Rightarrow> string \<Rightarrow> error + KustoConnectionStringBuilder"

text \<open>
  The client library is a parameter of the model. \<open>response.primary_results\<close> is a list
  of tables, a table a list of rows, a row a list of values. \<open>KustoClient(kcsb)\<close> raises
  or gives a client; \<open>client.execute(database, command)\<close> raises or gives a response.
  \<open>repr_value\<close> is Python's \<open>repr\<close> of a cell value and \<open>str_table\<close> is \<open>str\<close> of a
  result table; both belong to the library.
\<close>

type_synonym 'v table = "'v list list"

type_synonym 'v response = "'v table list"

type_synonym 'v client = "string \<Rightarrow> string \<Rightarrow> exn + 'v response"

record 'v sdk =
  KustoClient :: "KustoConnectionStringBuilder \<Rightarrow> exn + 'v client"
  repr_value :: "'v \<Rightarrow> string"
  str_table :: "'v table \<Rightarrow> string"

section \<open>KustoDatabase\<close>

text \<open>
  \<open>KustoDatabase.__init__\<close>; an argument that is \<open>None\<close> in Python is \<open>None\<close> here.
  An exception of a library builder leaves the initialiser as it is.
\<close>

definition KustoDatabase_init ::
  "builders \<Rightarrow> string \<Rightarrow> string option \<Rightarrow> string option \<Rightarrow> string option \<Rightarrow>
     error + KustoDatabase" where
  "KustoDatabase_init lib cluster client_id client_secret authority_id =
     (if startswith cluster ''http://'' then
        (case with_no_authentication lib cluster of
           Inl err \<Rightarrow> Inl err
         | Inr k \<Rightarrow> Inr \<lparr>kcsb = k\<rparr>)
      else if client_id = None \<or> client_secret = None \<or> authority_id = None then
        Inl (ValueError ''Client id, client secret and authority id are required'')
      else
        (case with_aad_application_key_authentication lib cluster
                (the client_id) (the client_secret) (the authority_id) of
           Inl err \<Rightarrow> Inl err
         | Inr k \<Rightarrow> Inr \<lparr>kcsb = k\<rparr>))"

text \<open>\<open>response.primary_results[0]\<close>.\<close>

definition primary_result :: "'v response \<Rightarrow> exn + 'v table" where
  "primary_result response = (case response of [] \<Rightarrow> Inl IndexError | t # _ \<Rightarrow> Inr t)"

text \<open>\<open>[row[0] for row in table]\<close>.\<close>

fun first_cells :: "'v table \<Rightarrow> exn + 'v list" where
  "first_cells [] = Inr []"
| "first_cells (row # rows) =
     (case row of
        [] \<Rightarrow> Inl IndexError
      | v # _ \<Rightarrow> (case first_cells rows of Inl e \<Rightarrow> Inl e | Inr vs \<Rightarrow> Inr (v # vs)))"

definition first_column :: "'v response \<Rightarrow> exn + 'v list" where
  "first_column response =
     (case primary_result response of Inl e \<Rightarrow> Inl e | Inr t \<Rightarrow> first_cells t)"

text \<open>
  The body shared by all seven methods:
  \<^verbatim>\<open>
  try:
      with KustoClient(self.kcsb) as kusto_client:
          response = kusto_client.execute(database, command)
      return extract(response)
  except Exception as e:
      logger.error(f"{errmsg}{e}")
  \<close>
  where \<open>command\<close> is computed after the client is built (it raises only in the model
  of the external rewrite). Falling out of the \<open>except\<close> clause returns \<open>None\<close>.
\<close>

definition try_execute ::
  "'v sdk \<Rightarrow> KustoDatabase \<Rightarrow> string \<Rightarrow> string \<Rightarrow> exn + string \<Rightarrow>
     ('v response \<Rightarrow> exn + 'r) \<Rightarrow> event list \<times> 'r option" where
  "try_execute lib self errmsg database command extract =
     (case KustoClient lib (kcsb self) of
        Inl e \<Rightarrow> ([Log ERROR (errmsg @ str_exn e)], None)
      | Inr kusto_client \<Rightarrow>
          (case command of
             Inl e \<Rightarrow> ([Log ERROR (errmsg @ str_exn e)], None)
           | Inr cmd \<Rightarrow>
               (case kusto_client database cmd of
                  Inl e \<Rightarrow> ([Execute database cmd, Log ERROR (errmsg @ str_exn e)], None)
                | Inr response \<Rightarrow>
                    (case extract response of
                       Inl e \<Rightarrow> ([Execute database cmd, Log ERROR (errmsg @ str_exn e)], None)
                     | Inr r \<Rightarrow> ([Execute database cmd], Some r)))))"

definition list_internal_tables ::
  "'v sdk \<Rightarrow> KustoDatabase \<Rightarrow> string \<Rightarrow> event list \<times> 'v list option" where
  "list_internal_tables lib self database =
     try_execute lib self ''Error listing tables: '' database (Inr ''.show tables'') first_column"

definition list_external_tables ::
  "'v sdk \<Rightarrow> KustoDatabase \<Rightarrow> string \<Rightarrow> event list \<times> 'v list option" where
  "list_external_tables lib self database =
     try_execute lib self ''Error listing external tables: '' database
       (Inr ''.show external tables'') first_column"

definition list_materialized_views ::
  "'v sdk \<Rightarrow> KustoDatabase \<Rightarrow> string \<Rightarrow> event list \<times> 'v list option" where
  "list_materialized_views lib self database =
     try_execute lib self ''Error listing materialized views: '' database
       (Inr ''.show materialized-views'') first_column"

definition execute_query_internal_table ::
  "'v sdk \<Rightarrow> KustoDatabase \<Rightarrow> string \<Rightarrow> string \<Rightarrow> event list \<times> (error + 'v table option)" where
  "execute_query_internal_table lib self database query =
     (if startswith query ''.'' then
        ([Log DEBUG (''Executing query: '' @ query)],
         Inl (ValueError ''Should not use management commands''))
      else
        (case try_execute lib self ''Error executing query: '' database (Inr query)
                primary_result of
           (evs, r) \<Rightarrow> (Log DEBUG (''Executing query: '' @ query) # evs, Inr r)))"

text \<open>The f-string \<open>external_table("{table_name}")\<close>.\<close>

definition external_table_ref :: "string \<Rightarrow> string" where
  "external_table_ref table_name =
     ''external_table('' @ [CHR 0x22] @ table_name @ [CHR 0x22] @ '')''"

text \<open>
  The two lines of the external rewrite:
  \<^verbatim>\<open>
  table_name = query.split("|")[0].strip()
  query = query.replace(table_name, f'external_table("{table_name}")')
  \<close>
\<close>

definition external_rewrite :: "string \<Rightarrow> exn + string" where
  "external_rewrite query =
     (case str_split query CHR ''|'' of
        [] \<Rightarrow> Inl IndexError
      | seg # _ \<Rightarrow>
          (let table_name = str_strip seg
           in Inr (str_replace query table_name (external_table_ref table_name))))"

definition execute_query_external_table ::
  "'v sdk \<Rightarrow> KustoDatabase \<Rightarrow> string \<Rightarrow> string \<Rightarrow> event list \<times> (error + 'v table option)" where
  "execute_query_external_table lib self database query =
     (if startswith query ''.'' then
        ([Log DEBUG (''Executing query: '' @ query)],
         Inl (ValueError ''Should not use management commands''))
      else
        (case try_execute lib self ''Error executing query: '' database
                (external_rewrite query) primary_result of
           (evs, r) \<Rightarrow> (Log DEBUG (''Executing query: '' @ query) # evs, Inr r)))"

definition retrieve_internal_table_schema ::
  "'v sdk \<Rightarrow> KustoDatabase \<Rightarrow> string \<Rightarrow> string \<Rightarrow> event list \<times> 'v table option" where
  "retrieve_internal_table_schema lib self database table =
     try_execute lib self ''Error retrieving table schema: '' database
       (Inr (table @ '' | getschema'')) primary_result"

definition retrieve_external_table_schema ::
  "'v sdk \<Rightarrow> KustoDatabase \<Rightarrow> string \<Rightarrow> string \<Rightarrow> event list \<times> 'v table option" where
  "retrieve_external_table_schema lib self database table =
     try_execute lib self ''Error retrieving table schema: '' database
       (Inr (external_table_ref table @ '' | getschema'')) primary_result"

section \<open>The tool catalogue and the dispatcher\<close>

record inputSchema =
  schema_type :: string
  properties :: "(string \<times> string) list"
  required :: "string list"

record Tool =
  name :: string
  description :: string
  inputSchema :: inputSchema

definition tool_list :: "Tool list" where
  "tool_list =
     [\<lparr>name = ''list_internal_tables'',
       description = ''List all internal tables in the database'',
       inputSchema = \<lparr>schema_type = ''object'',
                       properties = [(''database'', ''string'')],
                       required = [''database'']\<rparr>\<rparr>,
      \<lparr>name = ''list_external_tables'',
       description = ''List all external tables in the database'',
       inputSchema = \<lparr>schema_type = ''object'',
                       properties = [(''database'', ''string'')],
                       required = [''database'']\<rparr>\<rparr>,
      \<lparr>name = ''list_materialized_views'',
       description = ''List all materialized views in the database'',
       inputSchema = \<lparr>schema_type = ''object'',
                       properties = [(''database'', ''string'')],
                       required = [''database'']\<rparr>\<rparr>,
      \<lparr>name = ''execute_query_internal_table'',
       description = ''Execute a kql query to internal table or materialized view'',
       inputSchema = \<lparr>schema_type = ''object'',
                       properties = [(''database'', ''string''), (''query'', ''string'')],
                       required = [''database'', ''query'']\<rparr>\<rparr>,
      \<lparr>name = ''execute_query_external_table'',
       description = ''Execute a kql query to external table'',
       inputSchema = \<lparr>schema_type = ''object'',
                       properties = [(''database'', ''string''), (''query'', ''string'')],
                       required = [''database'', ''query'']\<rparr>\<rparr>,
      \<lparr>name = ''retrieve_internal_table_schema'',
       description = ''Get the schema of a table or materialized view'',
       inputSchema = \<lparr>schema_type = ''object'',
                       properties = [(''database'', ''string''), (''table'', ''string'')],
                       required = [''database'', ''table'']\<rparr>\<rparr>,
      \<lparr>name = ''retrieve_external_table_schema'',
       description = ''Get the schema of an external table'',
       inputSchema = \<lparr>schema_type = ''object'',
                       properties = [(''database'', ''string''), (''table'', ''string'')],
                       required = [''database'', ''table'']\<rparr>\<rparr>]"

definition tool_name_list :: "string list" where
  "tool_name_list = map name tool_list"

definition handle_list_tools :: "Tool list" where
  "handle_list_tools = tool_list"

text \<open>\<open>types.TextContent(type=..., text=...)\<close>.\<close>

datatype TextContent = TextContent string string

text \<open>\<open>str(results)\<close>: \<open>None\<close>, a Python list of cell values, or a result table.\<close>

definition str_list :: "('v \<Rightarrow> string) \<Rightarrow> 'v list \<Rightarrow> string" where
  "str_list rpr vs =
     ''['' @ concat (case map rpr vs of [] \<Rightarrow> [] | r # rs \<Rightarrow> r # map (\<lambda>x. '', '' @ x) rs) @ '']''"

definition str_results :: "('r \<Rightarrow> string) \<Rightarrow> 'r option \<Rightarrow> string" where
  "str_results f results = (case results of None \<Rightarrow> ''None'' | Some r \<Rightarrow> f r)"

text \<open>
  \<open>handle_call_tool\<close>. The argument dictionary is an association list (\<open>map_of\<close> looks a
  key up), \<open>None\<close> when the caller sent no arguments; the values are strings, as the
  input schemas declare. The result is the events of the gateway call and either the
  error raised or the value returned, which is \<open>None\<close> when the function ends without
  a \<open>return\<close>.
\<close>

definition handle_call_tool ::
  "'v sdk \<Rightarrow> KustoDatabase \<Rightarrow> string \<Rightarrow> (string \<times> string) list option \<Rightarrow>
     event list \<times> (error + TextContent list option)" where
  "handle_call_tool lib kusto_database tool arguments =
     (if tool \<notin> set tool_name_list then
        ([], Inl (ValueError (''Unknown tool: '' @ tool)))
      else if arguments = None \<or> arguments = Some []
              \<or> map_of (the arguments) ''database'' = None then
        ([], Inl (ValueError ''Missing database argument''))
      else
        (let args = the arguments; database = the (map_of args ''database'') in
         if tool = ''list_internal_tables'' then
           (case list_internal_tables lib kusto_database database of
              (evs, results) \<Rightarrow>
                (evs, Inr (Some [TextContent ''text''
                                   (str_results (str_list (repr_value lib)) results)])))
         else if tool = ''list_external_tables'' then
           (case list_external_tables lib kusto_database database of
              (evs, results) \<Rightarrow>
                (evs, Inr (Some [TextContent ''text''
                                   (str_results (str_list (repr_value lib)) results)])))
         else if tool = ''list_materialized_views'' then
           (case list_materialized_views lib kusto_database database of
              (evs, results) \<Rightarrow>
                (evs, Inr (Some [TextContent ''text''
                                   (str_results (str_list (repr_value lib)) results)])))
         else if tool = ''execute_query_internal_table'' then
           (if map_of args ''query'' = None then
              ([], Inl (ValueError ''Missing database or query argument''))
            else
              (case execute_query_internal_table lib kusto_database database
                      (the (map_of args ''query'')) of
                 (evs, Inl err) \<Rightarrow> (evs, Inl err)
               | (evs, Inr results) \<Rightarrow>
                   (evs, Inr (Some [TextContent ''text''
                                      (str_results (str_table lib) results)]))))
         else if tool = ''execute_query_external_table'' then
           (if map_of args ''query'' = None then
              ([], Inl (ValueError ''Missing database or query argument''))
            else
              (case execute_query_external_table lib kusto_database database
                      (the (map_of args ''query'')) of
                 (evs, Inl err) \<Rightarrow> (evs, Inl err)
               | (evs, Inr results) \<Rightarrow>
                   (evs, Inr (Some [TextContent ''text''
                                      (str_results (str_table lib) results)]))))
         else if tool = ''retrieve_table_schema'' then
           (if map_of args ''table'' = None then
              ([], Inl (ValueError ''Missing database or table argument''))
            else
              (case retrieve_internal_table_schema lib kusto_database database
                      (the (map_of args ''table'')) of
                 (evs, results) \<Rightarrow>
                   (evs, Inr (Some [TextContent ''text''
                                      (str_results (str_table lib) results)]))))
         else if tool = ''retrieve_external_table_schema'' then
           (if map_of args ''table'' = None then
              ([], Inl (ValueError ''Missing database or table argument''))
            else
              (case retrieve_external_table_schema lib kusto_database database
                      (the (map_of args ''table'')) of
                 (evs, results) \<Rightarrow>
                   (evs, Inr (Some [TextContent ''text''
                                      (str_results (str_table lib) results)]))))
         else ([], Inr None)))"

section \<open>A local database and client libraries for concrete runs\<close>

text \<open>
  \<open>echo_sdk\<close> answers every command with one table of one row holding the command;
  \<open>failing_sdk\<close> raises on every command.
\<close>

definition local_database :: KustoDatabase where
  "local_database = \<lparr>kcsb = NoAuthentication ''http://localhost:8080''\<rparr>"

text \<open>
  The builders of the client library, as far as their first checks go: the library's
  \<open>assert_string_is_not_empty\<close> raises \<open>ValueError("Should not be empty")\<close> for a
  string that is empty or all whitespace, and it is applied to the application id, the
  key and the authority, in this order, and to the connection string. The parsing of a
  connection string with \<open>key=value\<close> parts is left out: a cluster here is a plain
  URL.
\<close>

definition assert_string_is_not_empty :: "string \<Rightarrow> error + unit" where
  "assert_string_is_not_empty v =
     (if v = [] \<or> str_strip v = [] then Inl (ValueError ''Should not be empty'') else Inr ())"

definition kusto_data_builders :: builders where
  "kusto_data_builders =
     \<lparr>with_no_authentication = (\<lambda>connection_string.
        (case assert_string_is_not_empty connection_string of
           Inl err \<Rightarrow> Inl err
         | Inr _ \<Rightarrow> Inr (NoAuthentication connection_string))),
      with_aad_application_key_authentication =
        (\<lambda>connection_string aad_app_id app_key authority_id.
           (case assert_string_is_not_empty aad_app_id of
              Inl err \<Rightarrow> Inl err
            | Inr _ \<Rightarrow>
           (case assert_string_is_not_empty app_key of
              Inl err \<Rightarrow> Inl err
            | Inr _ \<Rightarrow>
           (case assert_string_is_not_empty authority_id of
              Inl err \<Rightarrow> Inl err
            | Inr _ \<Rightarrow>
           (case assert_string_is_not_empty connection_string of
              Inl err \<Rightarrow> Inl err
            | Inr _ \<Rightarrow>
                Inr (AadApplicationKey connection_string aad_app_id app_key authority_id))))))\<rparr>"

definition echo_sdk :: "string sdk" where
  "echo_sdk =
     \<lparr>KustoClient = (\<lambda>k. Inr (\<lambda>database command. Inr [[[command]]])),
      repr_value = (\<lambda>v. v),
      str_table = (\<lambda>t. concat (concat t))\<rparr>"

definition failing_sdk :: "string sdk" where
  "failing_sdk =
     \<lparr>KustoClient = (\<lambda>k. Inr (\<lambda>database command. Inl (KustoError ''connection refused''))),
      repr_value = (\<lambda>v. v),
      str_table = (\<lambda>t. concat (concat t))\<rparr>"

section \<open>Observing a run\<close>

text \<open>
  \<open>call_fails\<close>: the database call of a gateway operation raises \<open>e\<close>, either when
  the client is built or when \<open>command\<close> is executed.
\<close>

definition call_fails :: "'v sdk \<Rightarrow> KustoDatabase \<Rightarrow> string \<Rightarrow> string \<Rightarrow> exn \<Rightarrow> bool" where
  "call_fails lib self database command e =
     (case KustoClient lib (kcsb self) of
        Inl e' \<Rightarrow> e' = e
      | Inr kusto_client \<Rightarrow> kusto_client database command = Inl e)"

text \<open>The commands handed to the database client during a run, in order.\<close>

fun executed :: "event list \<Rightarrow> (string \<times> string) list" where
  "executed [] = []"
| "executed (Execute database command # evs) = (database, command) # executed evs"
| "executed (Log l m # evs) = executed evs"


section \<open>Properties of the string primitives\<close>

lemma str_split_not_Nil: "str_split s c \<noteq> []"
  by (induction s) (auto split: list.splits)

lemma str_split_no_sep: "c \<notin> set s \<Longrightarrow> str_split s c = [s]"
  by (induction s) auto

lemma str_split_first: "c \<notin> set a \<Longrightarrow> \<exists>xs. str_split (a @ c # r) c = a # xs"
  by (induction a) (auto split: list.splits)

lemma external_rewrite_total: "\<exists>r. external_rewrite q = Inr r"
  using str_split_not_Nil [of q "CHR ''|''"]
  by (auto simp: external_rewrite_def Let_def split: list.splits)

lemma str_replace_ne_Nil: "str_replace_ne [] old new = []"
  by (simp add: str_replace_ne.simps)

lemma str_replace_ne_hit:
  assumes "old \<noteq> []"
  shows "str_replace_ne (old @ s) old new = new @ str_replace_ne s old new"
proof (cases old)
  case Nil
  with assms show ?thesis by simp
next
  case (Cons a l)
  have "str_replace_ne ((a # l) @ s) (a # l) new =
        new @ str_replace_ne (drop (length (a # l)) ((a # l) @ s)) (a # l) new"
    by (subst str_replace_ne.simps) simp
  with Cons show ?thesis by simp
qed

lemma str_replace_ne_miss:
  "\<not> prefix old (c # cs) \<Longrightarrow> str_replace_ne (c # cs) old new = c # str_replace_ne cs old new"
  by (simp add: str_replace_ne.simps [of "c # cs"])

lemma str_replace_ne_absent:
  "\<not> str_contains s old \<Longrightarrow> str_replace_ne s old new = s"
  by (induction s) (simp_all add: str_replace_ne_Nil str_replace_ne_miss)

lemma str_contains_subset: "str_contains s sub \<Longrightarrow> set sub \<subseteq> set s"
proof (induction s)
  case Nil
  then show ?case by simp
next
  case (Cons c cs)
  from Cons.prems have "prefix sub (c # cs) \<or> str_contains cs sub" by simp
  then show ?case
  proof
    assume "prefix sub (c # cs)"
    then show ?thesis by (rule set_mono_prefix)
  next
    assume "str_contains cs sub"
    with Cons.IH show ?thesis by auto
  qed
qed

lemma str_strip_bare:
  assumes "t \<noteq> []" "\<not> isspace (hd t)" "\<not> isspace (last t)" "\<forall>c \<in> set ws. isspace c"
  shows "str_strip (t @ ws) = t"
proof -
  from assms obtain a t' where t: "t = a # t'" by (cases t) auto
  with assms have d1: "dropWhile isspace (t @ ws) = t @ ws" by simp
  have "rev (t @ ws) = rev ws @ rev t" by simp
  moreover have "dropWhile isspace (rev ws @ rev t) = dropWhile isspace (rev t)"
    by (rule dropWhile_append2) (use assms(4) in auto)
  moreover have "dropWhile isspace (rev t) = rev t"
    using assms(1,3) by (cases "rev t") (auto simp: last_rev hd_rev dest: arg_cong [where f = hd])
  ultimately show ?thesis by (simp add: str_strip_def d1)
qed

lemma str_replace_ne_padded:
  assumes "t \<noteq> []" "\<not> isspace (hd t)" "\<forall>c \<in> set pre. isspace c" "\<forall>c \<in> set suf. isspace c"
  shows "str_replace_ne (pre @ t @ suf) t new = pre @ new @ suf"
  using assms(3)
proof (induction pre)
  case Nil
  have "\<not> str_contains suf t"
  proof
    assume "str_contains suf t"
    then have "set t \<subseteq> set suf" by (rule str_contains_subset)
    with assms(1,4) have "isspace (hd t)" by (cases t) auto
    with assms(2) show False by simp
  qed
  then have "str_replace_ne suf t new = suf" by (rule str_replace_ne_absent)
  with assms(1) show ?case by (simp add: str_replace_ne_hit)
next
  case (Cons p pre)
  from assms(1) obtain a t' where t: "t = a # t'" by (cases t) auto
  with assms(2) Cons.prems have "a \<noteq> p" by auto
  with t have "\<not> prefix t (p # pre @ t @ suf)" by simp
  then have "str_replace_ne (p # pre @ t @ suf) t new = p # str_replace_ne (pre @ t @ suf) t new"
    by (rule str_replace_ne_miss)
  with Cons show ?case by simp
qed

lemma strip_decompose:
  assumes "str_strip q \<noteq> []"
  shows "q = takeWhile isspace q @ str_strip q @ rev (takeWhile isspace (rev q))"
    and "\<not> isspace (hd (str_strip q))"
proof -
  let ?d = "dropWhile isspace q"
  have q: "q = takeWhile isspace q @ ?d" by simp
  have s: "str_strip q = rev (dropWhile isspace (rev ?d))" by (simp add: str_strip_def)
  have d: "?d = str_strip q @ rev (takeWhile isspace (rev ?d))"
  proof -
    have "rev (dropWhile isspace (rev ?d)) @ rev (takeWhile isspace (rev ?d)) =
          rev (takeWhile isspace (rev ?d) @ dropWhile isspace (rev ?d))"
      by (simp only: rev_append)
    also have "\<dots> = ?d"
      by (simp only: takeWhile_dropWhile_id rev_rev_ident)
    finally show ?thesis by (simp only: s)
  qed
  from assms s have ne: "dropWhile isspace (rev ?d) \<noteq> []" by simp
  then obtain x where x: "x \<in> set (rev ?d)" "\<not> isspace x"
    by (metis dropWhile_eq_Nil_conv)
  have "rev q = rev ?d @ rev (takeWhile isspace q)" by (subst q) (simp only: rev_append)
  then have "takeWhile isspace (rev q) = takeWhile isspace (rev ?d @ rev (takeWhile isspace q))"
    by simp
  also have "\<dots> = takeWhile isspace (rev ?d)"
    using x by (rule takeWhile_append1)
  finally have tw: "takeWhile isspace (rev q) = takeWhile isspace (rev ?d)" .
  from q d tw show "q = takeWhile isspace q @ str_strip q @ rev (takeWhile isspace (rev q))"
    by metis
  have dne: "?d \<noteq> []"
  proof
    assume "?d = []"
    then have "dropWhile isspace (rev ?d) = []" by (simp only: rev.simps dropWhile.simps)
    with ne show False by (rule notE)
  qed
  then have hd: "\<not> isspace (hd ?d)" by (rule hd_dropWhile)
  from d assms have "hd ?d = hd (str_strip q)" by (metis hd_append2)
  with hd show "\<not> isspace (hd (str_strip q))" by simp
qed

section \<open>Properties of the gateway operations\<close>

lemma try_execute_call_fails:
  assumes "call_fails lib self database cmd e"
  shows "snd (try_execute lib self errmsg database (Inr cmd) extract) = None
         \<and> Log ERROR (errmsg @ str_exn e)
             \<in> set (fst (try_execute lib self errmsg database (Inr cmd) extract))"
  using assms by (auto simp: call_fails_def try_execute_def split: sum.splits)

lemma try_execute_executed:
  assumes "KustoClient lib (kcsb self) = Inr kusto_client"
  shows "executed (fst (try_execute lib self errmsg database (Inr cmd) extract)) = [(database, cmd)]"
  using assms by (simp add: try_execute_def split: sum.splits)

lemma external_rewrite_segment:
  assumes "CHR ''|'' \<notin> set seg"
  shows "external_rewrite (seg @ CHR ''|'' # rest) =
           Inr (str_replace (seg @ CHR ''|'' # rest) (str_strip seg) (external_table_ref (str_strip seg)))"
proof -
  from str_split_first [OF assms] obtain xs
    where "str_split (seg @ CHR ''|'' # rest) CHR ''|'' = seg # xs" by blast
  then show ?thesis by (simp add: external_rewrite_def Let_def)
qed


text \<open>
  The guard of the two query operations: a query whose own first character is \<open>.\<close>
  is rejected after the debug record is written, and nothing is executed.
\<close>

lemma execute_query_guard_rejects_dot:
  assumes "startswith query ''.''"
  shows "execute_query_internal_table lib self database query =
           ([Log DEBUG (''Executing query: '' @ query)],
            Inl (ValueError ''Should not use management commands''))
         \<and> execute_query_external_table lib self database query =
           ([Log DEBUG (''Executing query: '' @ query)],
            Inl (ValueError ''Should not use management commands''))
         \<and> executed (fst (execute_query_internal_table lib self database query)) = []
         \<and> executed (fst (execute_query_external_table lib self database query)) = []"
  using assms by (simp add: execute_query_internal_table_def execute_query_external_table_def)

section \<open>The claims\<close>

lemma tool_name_list_eq:
  "tool_name_list =
     [''list_internal_tables'', ''list_external_tables'', ''list_materialized_views'',
      ''execute_query_internal_table'', ''execute_query_external_table'',
      ''retrieve_internal_table_schema'', ''retrieve_external_table_schema'']"
  by (simp add: tool_name_list_def tool_list_def)

text \<open>
  Claim C5, as amended. Building the connection configuration: with a cluster URL
  that starts with \<open>http://\<close> the result is that of the library's no-authentication
  builder on the URL, whatever credentials are passed; with any other URL the
  initialiser raises the \<open>ValueError\<close> "Client id, client secret and authority id are
  required" (the specification's \<open>ConfigurationError\<close>) when one of the three
  credentials is \<open>None\<close>, and otherwise the result is that of the library's
  application-key builder on the URL and the three credentials. Where the builder
  gives a configuration the initialiser succeeds with it; where the builder raises, the
  initialiser raises the same error.
\<close>

theorem KustoDatabase_init_cases:
  "(startswith cluster ''http://'' \<longrightarrow>
      (\<forall>k. with_no_authentication lib cluster = Inr k \<longrightarrow>
         KustoDatabase_init lib cluster client_id client_secret authority_id =
           Inr \<lparr>kcsb = k\<rparr>)
      \<and> (\<forall>err. with_no_authentication lib cluster = Inl err \<longrightarrow>
         KustoDatabase_init lib cluster client_id client_secret authority_id = Inl err))
   \<and> (\<not> startswith cluster ''http://''
        \<and> (client_id = None \<or> client_secret = None \<or> authority_id = None) \<longrightarrow>
      KustoDatabase_init lib cluster client_id client_secret authority_id =
        Inl (ValueError ''Client id, client secret and authority id are required''))
   \<and> (\<not> startswith cluster ''http://''
        \<and> client_id = Some a \<and> client_secret = Some b \<and> authority_id = Some c \<longrightarrow>
      (\<forall>k. with_aad_application_key_authentication lib cluster a b c = Inr k \<longrightarrow>
         KustoDatabase_init lib cluster client_id client_secret authority_id =
           Inr \<lparr>kcsb = k\<rparr>)
      \<and> (\<forall>err. with_aad_application_key_authentication lib cluster a b c = Inl err \<longrightarrow>
         KustoDatabase_init lib cluster client_id client_secret authority_id = Inl err))"
  by (auto simp: KustoDatabase_init_def)

theorem KustoDatabase_init_cases_witness:
  "KustoDatabase_init kusto_data_builders ''http://localhost:8080'' (Some ''app'') None None =
     Inr \<lparr>kcsb = NoAuthentication ''http://localhost:8080''\<rparr>
   \<and> KustoDatabase_init kusto_data_builders ''https://cluster.kusto.windows.net''
         (Some ''app'') None (Some ''tenant'') =
       Inl (ValueError ''Client id, client secret and authority id are required'')
   \<and> KustoDatabase_init kusto_data_builders ''https://cluster.kusto.windows.net''
         (Some ''app'') (Some ''secret'') (Some ''tenant'') =
       Inr \<lparr>kcsb = AadApplicationKey
                      ''https://cluster.kusto.windows.net'' ''app'' ''secret'' ''tenant''\<rparr>
   \<and> KustoDatabase_init kusto_data_builders ''https://cluster.kusto.windows.net''
         (Some ''app'') (Some ''secret'') (Some '' '') =
       Inl (ValueError ''Should not be empty'')"
proof -
  have b1: "with_no_authentication kusto_data_builders ''http://localhost:8080'' =
      Inr (NoAuthentication ''http://localhost:8080'')"
    by (simp add: kusto_data_builders_def assert_string_is_not_empty_def str_strip_def
        isspace_def)
  have b2: "with_aad_application_key_authentication kusto_data_builders
      ''https://cluster.kusto.windows.net'' ''app'' ''secret'' ''tenant'' =
      Inr (AadApplicationKey ''https://cluster.kusto.windows.net'' ''app'' ''secret'' ''tenant'')"
    by (simp add: kusto_data_builders_def assert_string_is_not_empty_def str_strip_def
        isspace_def)
  have b3: "with_aad_application_key_authentication kusto_data_builders
      ''https://cluster.kusto.windows.net'' ''app'' ''secret'' '' '' =
      Inl (ValueError ''Should not be empty'')"
    by (simp add: kusto_data_builders_def assert_string_is_not_empty_def str_strip_def
        isspace_def)
  show ?thesis
    using KustoDatabase_init_cases [of "''http://localhost:8080''" kusto_data_builders
        "Some ''app''" None None]
      KustoDatabase_init_cases [of "''https://cluster.kusto.windows.net''" kusto_data_builders
        "Some ''app''" None "Some ''tenant''"]
      KustoDatabase_init_cases [of "''https://cluster.kusto.windows.net''" kusto_data_builders
        "Some ''app''" "Some ''secret''" "Some ''tenant''" "''app''" "''secret''" "''tenant''"]
      KustoDatabase_init_cases [of "''https://cluster.kusto.windows.net''" kusto_data_builders
        "Some ''app''" "Some ''secret''" "Some '' ''" "''app''" "''secret''" "'' ''"]
      b1 b2 b3
    by (simp add: startswith_def)
qed

text \<open>
  Claim C5 as stated fails: with a cluster that does not start with \<open>http://\<close> and
  three credentials that are all present, the key being the empty string, the
  library's builder raises and so does the initialiser; no configuration is built.
\<close>

theorem KustoDatabase_init_empty_secret_counterexample:
  "\<not> startswith ''https://cluster.kusto.windows.net'' ''http://''
   \<and> Some ''app'' \<noteq> None \<and> Some [] \<noteq> (None :: string option) \<and> Some ''tenant'' \<noteq> None
   \<and> KustoDatabase_init kusto_data_builders ''https://cluster.kusto.windows.net''
         (Some ''app'') (Some []) (Some ''tenant'') =
       Inl (ValueError ''Should not be empty'')"
  by (simp add: startswith_def KustoDatabase_init_def kusto_data_builders_def
      assert_string_is_not_empty_def str_strip_def isspace_def)

text \<open>
  Claim C6. A call whose tool name is not in the catalogue raises the \<open>ValueError\<close>
  "Unknown tool: <name>" (the specification's \<open>UnknownOperation\<close>), whatever the
  arguments are, and nothing reaches the gateway.
\<close>

theorem unknown_tool_rejected:
  "tool \<notin> set tool_name_list \<Longrightarrow>
   handle_call_tool lib kusto_database tool arguments =
     ([], Inl (ValueError (''Unknown tool: '' @ tool)))"
  by (simp add: handle_call_tool_def)

theorem unknown_tool_rejected_witness:
  "''retrieve_table_schema'' \<notin> set tool_name_list
   \<and> handle_call_tool echo_sdk local_database ''retrieve_table_schema'' None =
       ([], Inl (ValueError ''Unknown tool: retrieve_table_schema''))
   \<and> handle_call_tool echo_sdk local_database ''retrieve_table_schema''
         (Some [(''database'', ''Contoso''), (''table'', ''StormEvents'')]) =
       ([], Inl (ValueError ''Unknown tool: retrieve_table_schema''))"
proof -
  have h: "''retrieve_table_schema'' \<notin> set tool_name_list"
    by (simp add: tool_name_list_eq)
  show ?thesis
    using h unknown_tool_rejected [OF h, of echo_sdk local_database None]
      unknown_tool_rejected [OF h, of echo_sdk local_database
        "Some [(''database'', ''Contoso''), (''table'', ''StormEvents'')]"]
    by simp
qed

text \<open>
  Claim C7. A call to a tool of the catalogue whose argument dictionary is absent or has
  no \<open>database\<close> key raises the \<open>ValueError\<close> "Missing database argument" (the
  specification's \<open>MissingArgument\<close>).
\<close>

theorem missing_database_rejected:
  assumes "tool \<in> set tool_name_list"
    and "arguments = None \<or> (\<exists>args. arguments = Some args \<and> map_of args ''database'' = None)"
  shows "handle_call_tool lib kusto_database tool arguments =
           ([], Inl (ValueError ''Missing database argument''))"
  using assms by (auto simp: handle_call_tool_def)

theorem missing_database_rejected_witness:
  "''retrieve_internal_table_schema'' \<in> set tool_name_list
   \<and> handle_call_tool echo_sdk local_database ''retrieve_internal_table_schema'' None =
       ([], Inl (ValueError ''Missing database argument''))
   \<and> handle_call_tool echo_sdk local_database ''retrieve_internal_table_schema''
         (Some [(''table'', ''StormEvents'')]) =
       ([], Inl (ValueError ''Missing database argument''))"
proof -
  have h: "''retrieve_internal_table_schema'' \<in> set tool_name_list"
    by (simp add: tool_name_list_eq)
  have a: "map_of [(''table'', ''StormEvents'')] ''database'' = None"
    by simp
  show ?thesis
    using h missing_database_rejected [OF h, of None echo_sdk local_database]
      missing_database_rejected [OF h, of "Some [(''table'', ''StormEvents'')]"
        echo_sdk local_database] a
    by simp
qed

text \<open>
  Claim C9. Listing the tools gives exactly seven descriptors, in this order, each with
  its required arguments. \<open>handle_list_tools\<close> is a constant of the model, as the
  handler reads only the list built at start-up: no call changes what it returns.
\<close>

theorem handle_list_tools_catalogue:
  "map (\<lambda>t. (name t, required (inputSchema t))) handle_list_tools =
     [(''list_internal_tables'', [''database'']),
      (''list_external_tables'', [''database'']),
      (''list_materialized_views'', [''database'']),
      (''execute_query_internal_table'', [''database'', ''query'']),
      (''execute_query_external_table'', [''database'', ''query'']),
      (''retrieve_internal_table_schema'', [''database'', ''table'']),
      (''retrieve_external_table_schema'', [''database'', ''table''])]"
  by (simp add: handle_list_tools_def tool_list_def)

text \<open>
  Claim C2. The claim asks that every tool of the catalogue, called with its required
  arguments, is routed to its gateway operation and returns one text item. For
  \<open>retrieve_internal_table_schema\<close> the dispatcher compares the name with
  \<open>retrieve_table_schema\<close>, which is not in the catalogue: the call falls through
  every branch, the gateway is never called and the handler returns \<open>None\<close>.
\<close>

theorem retrieve_internal_table_schema_not_dispatched:
  "handle_call_tool lib kusto_database ''retrieve_internal_table_schema''
     (Some [(''database'', ''Contoso''), (''table'', ''StormEvents'')]) = ([], Inr None)"
  by (simp add: handle_call_tool_def tool_name_list_eq)

text \<open>
  Claim C4. The claim asks that a query or schema tool called with \<open>database\<close> but
  without its own argument raises \<open>MissingArgument\<close>. For
  \<open>retrieve_internal_table_schema\<close> the branch that checks \<open>table\<close> is never taken
  (it tests the name \<open>retrieve_table_schema\<close>): the call returns \<open>None\<close> and raises
  nothing, where its sibling \<open>retrieve_external_table_schema\<close> raises.
\<close>

theorem retrieve_internal_table_schema_table_not_checked:
  "handle_call_tool lib kusto_database ''retrieve_internal_table_schema''
     (Some [(''database'', ''Contoso'')]) = ([], Inr None)
   \<and> handle_call_tool lib kusto_database ''retrieve_external_table_schema''
     (Some [(''database'', ''Contoso'')]) =
       ([], Inl (ValueError ''Missing database or table argument''))"
  by (simp add: handle_call_tool_def tool_name_list_eq)

text \<open>
  Claim C1. The claim asks that a query whose trimmed text starts with \<open>.\<close> is
  rejected on both paths and never reaches the database. The guard, whose message is
  "Should not use management commands", tests \<open>query.startswith(".")\<close> on the query as
  it was passed: the management command \<open>" .show tables"\<close>, with one space in front, is
  not rejected. The internal path hands it to the database unchanged and returns the
  rows; the external path does not raise either and hands its rewritten text to the
  database.
\<close>

theorem leading_space_management_command_executed:
  "startswith (str_strip '' .show tables'') ''.''
   \<and> execute_query_internal_table echo_sdk local_database ''Contoso'' '' .show tables'' =
       ([Log DEBUG ''Executing query:  .show tables'', Execute ''Contoso'' '' .show tables''],
        Inr (Some [['' .show tables'']]))
   \<and> execute_query_external_table echo_sdk local_database ''Contoso'' '' .show tables'' =
       ([Log DEBUG ''Executing query:  .show tables'',
         Execute ''Contoso'' ('' external_table('' @ [CHR 0x22] @ ''.show tables'' @ [CHR 0x22] @ '')'')],
        Inr (Some [['' external_table('' @ [CHR 0x22] @ ''.show tables'' @ [CHR 0x22] @ '')'']]))"
proof -
  have a: "startswith (str_strip '' .show tables'') ''.''"
    by (simp add: startswith_def str_strip_def isspace_def)
  have b: "execute_query_internal_table echo_sdk local_database ''Contoso'' '' .show tables'' =
       ([Log DEBUG ''Executing query:  .show tables'', Execute ''Contoso'' '' .show tables''],
        Inr (Some [['' .show tables'']]))"
    by (simp add: startswith_def execute_query_internal_table_def try_execute_def echo_sdk_def
        primary_result_def)
  have r: "external_rewrite '' .show tables'' =
      Inr ('' external_table('' @ [CHR 0x22] @ ''.show tables'' @ [CHR 0x22] @ '')'')"
    by code_simp
  have c: "execute_query_external_table echo_sdk local_database ''Contoso'' '' .show tables'' =
       ([Log DEBUG ''Executing query:  .show tables'',
         Execute ''Contoso'' ('' external_table('' @ [CHR 0x22] @ ''.show tables'' @ [CHR 0x22] @ '')'')],
        Inr (Some [['' external_table('' @ [CHR 0x22] @ ''.show tables'' @ [CHR 0x22] @ '')'']]))"
    by (simp add: startswith_def execute_query_external_table_def try_execute_def echo_sdk_def
        primary_result_def r)
  from a b c show ?thesis by simp
qed

text \<open>
  Claim C3, as amended. For a table name \<open>T\<close> that is not empty, has no whitespace at
  either end, contains no \<open>|\<close> and does not occur inside \<open>" | where x > 1"\<close>, the
  external rewrite turns the query \<open>T | where x > 1\<close> (not starting with \<open>.\<close>) into
  exactly \<open>external_table("T") | where x > 1\<close>, and that is the one command the
  operation hands to the database client once the client is built. (\<open>CHR 0x22\<close> is the
  double quote.)
\<close>

theorem external_rewrite_bare_table:
  assumes "T \<noteq> []" and "\<not> isspace (hd T)" and "\<not> isspace (last T)"
    and "CHR ''|'' \<notin> set T"
    and "\<not> str_contains '' | where x > 1'' T"
    and "\<not> startswith (T @ '' | where x > 1'') ''.''"
  shows "external_rewrite (T @ '' | where x > 1'') =
           Inr (''external_table('' @ [CHR 0x22] @ T @ [CHR 0x22] @ '') | where x > 1'')
         \<and> ((\<exists>kusto_client. KustoClient lib (kcsb self) = Inr kusto_client) \<longrightarrow>
              executed (fst (execute_query_external_table lib self database
                               (T @ '' | where x > 1''))) =
                [(database,
                  ''external_table('' @ [CHR 0x22] @ T @ [CHR 0x22] @ '') | where x > 1'')])"
proof -
  have sp: "isspace CHR '' ''" by (simp add: isspace_def)
  have seg: "CHR ''|'' \<notin> set (T @ '' '')" using assms(4) by simp
  have strip: "str_strip (T @ '' '') = T"
    using assms(1-3) sp by (intro str_strip_bare) simp_all
  have "external_rewrite ((T @ '' '') @ CHR ''|'' # '' where x > 1'') =
          Inr (str_replace ((T @ '' '') @ CHR ''|'' # '' where x > 1'') T (external_table_ref T))"
    using external_rewrite_segment [OF seg, of "'' where x > 1''"] by (simp only: strip)
  then have r1: "external_rewrite (T @ '' | where x > 1'') =
          Inr (str_replace (T @ '' | where x > 1'') T (external_table_ref T))"
    by simp
  have "str_replace_ne '' | where x > 1'' T (external_table_ref T) = '' | where x > 1''"
    using assms(5) by (rule str_replace_ne_absent)
  then have "str_replace (T @ '' | where x > 1'') T (external_table_ref T) =
          external_table_ref T @ '' | where x > 1''"
    using assms(1) by (simp add: str_replace_def str_replace_ne_hit)
  with r1 have r: "external_rewrite (T @ '' | where x > 1'') =
           Inr (''external_table('' @ [CHR 0x22] @ T @ [CHR 0x22] @ '') | where x > 1'')"
    by (simp add: external_table_ref_def)
  have "executed (fst (execute_query_external_table lib self database
                         (T @ '' | where x > 1''))) =
          [(database, ''external_table('' @ [CHR 0x22] @ T @ [CHR 0x22] @ '') | where x > 1'')]"
    if c: "KustoClient lib (kcsb self) = Inr kusto_client" for kusto_client
    using assms(6) r
      try_execute_executed [OF c, of "''Error executing query: ''" database
        "''external_table('' @ [CHR 0x22] @ T @ [CHR 0x22] @ '') | where x > 1''" primary_result]
    by (simp add: execute_query_external_table_def case_prod_unfold)
  with r show ?thesis by blast
qed

theorem external_rewrite_bare_table_witness:
  "external_rewrite ''StormEvents | where x > 1'' =
     Inr (''external_table('' @ [CHR 0x22] @ ''StormEvents'' @ [CHR 0x22] @ '') | where x > 1'')
   \<and> executed (fst (execute_query_external_table echo_sdk local_database ''Contoso''
                      ''StormEvents | where x > 1'')) =
       [(''Contoso'',
         ''external_table('' @ [CHR 0x22] @ ''StormEvents'' @ [CHR 0x22] @ '') | where x > 1'')]"
proof -
  have h: "''StormEvents'' \<noteq> []" "\<not> isspace (hd ''StormEvents'')"
    "\<not> isspace (last ''StormEvents'')" "CHR ''|'' \<notin> set ''StormEvents''"
    "\<not> str_contains '' | where x > 1'' ''StormEvents''"
    "\<not> startswith (''StormEvents'' @ '' | where x > 1'') ''.''"
    by (simp_all add: isspace_def startswith_def)
  have c: "\<exists>kusto_client. KustoClient echo_sdk (kcsb local_database) = Inr kusto_client"
    by (simp add: echo_sdk_def)
  show ?thesis
    using external_rewrite_bare_table [OF h, of echo_sdk local_database "''Contoso''"] c
    by simp
qed

text \<open>
  Claim C3 as stated fails for the table name \<open>x\<close>: the replacement is a plain text
  substitution over the whole query, so the column \<open>x\<close> of the filter is rewritten
  too. A name with a \<open>|\<close> inside is cut at it, and a name with whitespace in front
  is trimmed before it is quoted.
\<close>

theorem external_rewrite_recurring_name_counterexample:
  "\<not> startswith ''x | where x > 1'' ''.''
   \<and> external_rewrite ''x | where x > 1'' =
       Inr (''external_table('' @ [CHR 0x22] @ ''x'' @ [CHR 0x22] @ '') | where external_table(''
              @ [CHR 0x22] @ ''x'' @ [CHR 0x22] @ '') > 1'')
   \<and> external_rewrite ''x | where x > 1'' \<noteq>
       Inr (''external_table('' @ [CHR 0x22] @ ''x'' @ [CHR 0x22] @ '') | where x > 1'')
   \<and> external_rewrite (''a|b'' @ '' | where x > 1'') =
       Inr (''external_table('' @ [CHR 0x22] @ ''a'' @ [CHR 0x22] @ '')|b | where x > 1'')
   \<and> external_rewrite ('' T'' @ '' | where x > 1'') =
       Inr ('' external_table('' @ [CHR 0x22] @ ''T'' @ [CHR 0x22] @ '') | where x > 1'')"
proof -
  have a: "\<not> startswith ''x | where x > 1'' ''.''" by (simp add: startswith_def)
  have b: "external_rewrite ''x | where x > 1'' =
       Inr (''external_table('' @ [CHR 0x22] @ ''x'' @ [CHR 0x22] @ '') | where external_table(''
              @ [CHR 0x22] @ ''x'' @ [CHR 0x22] @ '') > 1'')"
    by code_simp
  have c: "''external_table('' @ [CHR 0x22] @ ''x'' @ [CHR 0x22] @ '') | where external_table(''
              @ [CHR 0x22] @ ''x'' @ [CHR 0x22] @ '') > 1''
    \<noteq> ''external_table('' @ [CHR 0x22] @ ''x'' @ [CHR 0x22] @ '') | where x > 1''"
    by simp
  have d: "external_rewrite (''a|b'' @ '' | where x > 1'') =
       Inr (''external_table('' @ [CHR 0x22] @ ''a'' @ [CHR 0x22] @ '')|b | where x > 1'')"
    by code_simp
  have e: "external_rewrite ('' T'' @ '' | where x > 1'') =
       Inr ('' external_table('' @ [CHR 0x22] @ ''T'' @ [CHR 0x22] @ '') | where x > 1'')"
    by code_simp
  from a b c d e show ?thesis by simp
qed

text \<open>
  Claim C8. For each of the seven gateway operations: when the database call raises
  \<open>e\<close>, the operation returns \<open>None\<close> (for the two query operations, on a query the
  guard lets through) and writes an error record with the operation's message and
  \<open>str(e)\<close> to the log. No error reaches the caller.
\<close>

theorem gateway_failure_swallowed:
  "(call_fails lib self database ''.show tables'' e \<longrightarrow>
      snd (list_internal_tables lib self database) = None
      \<and> Log ERROR (''Error listing tables: '' @ str_exn e)
          \<in> set (fst (list_internal_tables lib self database)))
   \<and> (call_fails lib self database ''.show external tables'' e \<longrightarrow>
      snd (list_external_tables lib self database) = None
      \<and> Log ERROR (''Error listing external tables: '' @ str_exn e)
          \<in> set (fst (list_external_tables lib self database)))
   \<and> (call_fails lib self database ''.show materialized-views'' e \<longrightarrow>
      snd (list_materialized_views lib self database) = None
      \<and> Log ERROR (''Error listing materialized views: '' @ str_exn e)
          \<in> set (fst (list_materialized_views lib self database)))
   \<and> (\<not> startswith query ''.'' \<and> call_fails lib self database query e \<longrightarrow>
      snd (execute_query_internal_table lib self database query) = Inr None
      \<and> Log ERROR (''Error executing query: '' @ str_exn e)
          \<in> set (fst (execute_query_internal_table lib self database query)))
   \<and> (\<not> startswith query ''.'' \<and> external_rewrite query = Inr cmd
        \<and> call_fails lib self database cmd e \<longrightarrow>
      snd (execute_query_external_table lib self database query) = Inr None
      \<and> Log ERROR (''Error executing query: '' @ str_exn e)
          \<in> set (fst (execute_query_external_table lib self database query)))
   \<and> (call_fails lib self database (table @ '' | getschema'') e \<longrightarrow>
      snd (retrieve_internal_table_schema lib self database table) = None
      \<and> Log ERROR (''Error retrieving table schema: '' @ str_exn e)
          \<in> set (fst (retrieve_internal_table_schema lib self database table)))
   \<and> (call_fails lib self database (external_table_ref table @ '' | getschema'') e \<longrightarrow>
      snd (retrieve_external_table_schema lib self database table) = None
      \<and> Log ERROR (''Error retrieving table schema: '' @ str_exn e)
          \<in> set (fst (retrieve_external_table_schema lib self database table)))"
proof -
  have c1: "call_fails lib self database ''.show tables'' e \<longrightarrow>
      snd (list_internal_tables lib self database) = None
      \<and> Log ERROR (''Error listing tables: '' @ str_exn e)
          \<in> set (fst (list_internal_tables lib self database))"
    unfolding list_internal_tables_def by (intro impI) (rule try_execute_call_fails)
  have c2: "call_fails lib self database ''.show external tables'' e \<longrightarrow>
      snd (list_external_tables lib self database) = None
      \<and> Log ERROR (''Error listing external tables: '' @ str_exn e)
          \<in> set (fst (list_external_tables lib self database))"
    unfolding list_external_tables_def by (intro impI) (rule try_execute_call_fails)
  have c3: "call_fails lib self database ''.show materialized-views'' e \<longrightarrow>
      snd (list_materialized_views lib self database) = None
      \<and> Log ERROR (''Error listing materialized views: '' @ str_exn e)
          \<in> set (fst (list_materialized_views lib self database))"
    unfolding list_materialized_views_def by (intro impI) (rule try_execute_call_fails)
  have c4: "\<not> startswith query ''.'' \<and> call_fails lib self database query e \<longrightarrow>
      snd (execute_query_internal_table lib self database query) = Inr None
      \<and> Log ERROR (''Error executing query: '' @ str_exn e)
          \<in> set (fst (execute_query_internal_table lib self database query))"
  proof (intro impI, elim conjE)
    assume n: "\<not> startswith query ''.''" and f: "call_fails lib self database query e"
    show "snd (execute_query_internal_table lib self database query) = Inr None
      \<and> Log ERROR (''Error executing query: '' @ str_exn e)
          \<in> set (fst (execute_query_internal_table lib self database query))"
      using n try_execute_call_fails [OF f, of "''Error executing query: ''" primary_result]
      by (simp add: execute_query_internal_table_def case_prod_unfold)
  qed
  have c5: "\<not> startswith query ''.'' \<and> external_rewrite query = Inr cmd
        \<and> call_fails lib self database cmd e \<longrightarrow>
      snd (execute_query_external_table lib self database query) = Inr None
      \<and> Log ERROR (''Error executing query: '' @ str_exn e)
          \<in> set (fst (execute_query_external_table lib self database query))"
  proof (intro impI, elim conjE)
    assume n: "\<not> startswith query ''.''" and r: "external_rewrite query = Inr cmd"
      and f: "call_fails lib self database cmd e"
    show "snd (execute_query_external_table lib self database query) = Inr None
      \<and> Log ERROR (''Error executing query: '' @ str_exn e)
          \<in> set (fst (execute_query_external_table lib self database query))"
      using n r try_execute_call_fails [OF f, of "''Error executing query: ''" primary_result]
      by (simp add: execute_query_external_table_def case_prod_unfold)
  qed
  have c6: "call_fails lib self database (table @ '' | getschema'') e \<longrightarrow>
      snd (retrieve_internal_table_schema lib self database table) = None
      \<and> Log ERROR (''Error retrieving table schema: '' @ str_exn e)
          \<in> set (fst (retrieve_internal_table_schema lib self database table))"
    unfolding retrieve_internal_table_schema_def by (intro impI) (rule try_execute_call_fails)
  have c7: "call_fails lib self database (external_table_ref table @ '' | getschema'') e \<longrightarrow>
      snd (retrieve_external_table_schema lib self database table) = None
      \<and> Log ERROR (''Error retrieving table schema: '' @ str_exn e)
          \<in> set (fst (retrieve_external_table_schema lib self database table))"
    unfolding retrieve_external_table_schema_def by (intro impI) (rule try_execute_call_fails)
  show ?thesis
    by (intro conjI) (rule c1 c2 c3 c4 c5 c6 c7)+
qed

theorem gateway_failure_swallowed_witness:
  "list_internal_tables failing_sdk local_database ''Contoso'' =
     ([Execute ''Contoso'' ''.show tables'',
       Log ERROR ''Error listing tables: connection refused''], None)
   \<and> snd (list_external_tables failing_sdk local_database ''Contoso'') = None
   \<and> snd (list_materialized_views failing_sdk local_database ''Contoso'') = None
   \<and> execute_query_internal_table failing_sdk local_database ''Contoso'' ''StormEvents | take 5'' =
     ([Log DEBUG ''Executing query: StormEvents | take 5'',
       Execute ''Contoso'' ''StormEvents | take 5'',
       Log ERROR ''Error executing query: connection refused''], Inr None)
   \<and> snd (execute_query_external_table failing_sdk local_database ''Contoso''
            ''StormEvents | take 5'') = Inr None
   \<and> snd (retrieve_internal_table_schema failing_sdk local_database ''Contoso'' ''StormEvents'')
       = None
   \<and> snd (retrieve_external_table_schema failing_sdk local_database ''Contoso'' ''StormEvents'')
       = None"
proof -
  have f: "call_fails failing_sdk local_database ''Contoso'' cmd (KustoError ''connection refused'')"
    for cmd
    by (simp add: call_fails_def failing_sdk_def)
  have n: "\<not> startswith ''StormEvents | take 5'' ''.''"
    by (simp add: startswith_def)
  obtain cmd where r: "external_rewrite ''StormEvents | take 5'' = Inr cmd"
    using external_rewrite_total by blast
  have e: "fst (try_execute failing_sdk local_database m ''Contoso'' (Inr c) primary_result) =
    [Execute ''Contoso'' c, Log ERROR (m @ ''connection refused'')]" for m c
    by (simp add: try_execute_def failing_sdk_def)
  have e2: "fst (try_execute failing_sdk local_database m ''Contoso'' (Inr c) first_column) =
    [Execute ''Contoso'' c, Log ERROR (m @ ''connection refused'')]" for m c
    by (simp add: try_execute_def failing_sdk_def)
  show ?thesis
    using gateway_failure_swallowed [of failing_sdk local_database "''Contoso''"
        "KustoError ''connection refused''" "''StormEvents | take 5''" cmd "''StormEvents''"]
      f n r e e2
    by (auto simp: prod_eq_iff list_internal_tables_def execute_query_internal_table_def
        split: prod.splits)
qed

text \<open>
  Claim C10. For a query that does not start with \<open>.\<close> and contains no \<open>|\<close>, the
  external rewrite is defined: the table name is the whole trimmed query and the
  result is Python's \<open>replace\<close> of it by \<open>external_table("<trimmed query>")\<close> in the
  query. The operation raises nothing, and once the client is built it hands exactly
  one command to the database: when the trimmed query is not empty, the query with its
  one occurrence replaced and the surrounding whitespace kept; when it is empty,
  \<open>external_table("")\<close> put before every character of the query and at the end, as
  \<open>replace\<close> does for an empty pattern. (\<open>CHR 0x22\<close> is the double quote.)
\<close>

theorem external_rewrite_without_pipe:
  assumes "\<not> startswith query ''.''" and "CHR ''|'' \<notin> set query"
  shows "external_rewrite query =
           Inr (str_replace query (str_strip query)
                  (''external_table('' @ [CHR 0x22] @ str_strip query @ [CHR 0x22] @ '')''))
         \<and> (\<exists>evs r. execute_query_external_table lib self database query = (evs, Inr r))
         \<and> (str_strip query \<noteq> [] \<and> KustoClient lib (kcsb self) = Inr kusto_client \<longrightarrow>
              executed (fst (execute_query_external_table lib self database query)) =
                [(database,
                  takeWhile isspace query
                    @ ''external_table('' @ [CHR 0x22] @ str_strip query @ [CHR 0x22] @ '')''
                    @ rev (takeWhile isspace (rev query)))])
         \<and> (str_strip query = [] \<and> KustoClient lib (kcsb self) = Inr kusto_client \<longrightarrow>
              executed (fst (execute_query_external_table lib self database query)) =
                [(database,
                  ''external_table('' @ [CHR 0x22, CHR 0x22] @ '')''
                    @ concat (map (\<lambda>c. c # ''external_table('' @ [CHR 0x22, CHR 0x22] @ '')'')
                                query))])"
proof -
  let ?new = "''external_table('' @ [CHR 0x22] @ str_strip query @ [CHR 0x22] @ '')''"
  have new: "external_table_ref (str_strip query) = ?new"
    by (simp add: external_table_ref_def)
  have r: "external_rewrite query = Inr (str_replace query (str_strip query) ?new)"
    using str_split_no_sep [OF assms(2)] by (simp add: external_rewrite_def Let_def new)
  have e: "\<exists>evs r. execute_query_external_table lib self database query = (evs, Inr r)"
    using assms(1) by (simp add: execute_query_external_table_def case_prod_unfold)
  have sent: "executed (fst (execute_query_external_table lib self database query)) =
      [(database, cmd)]"
    if "external_rewrite query = Inr cmd" and c: "KustoClient lib (kcsb self) = Inr kusto_client"
    for cmd
    using assms(1) that(1)
      try_execute_executed [OF c, of "''Error executing query: ''" database cmd primary_result]
    by (simp add: execute_query_external_table_def case_prod_unfold)
  have ne: "executed (fst (execute_query_external_table lib self database query)) =
      [(database, takeWhile isspace query @ ?new @ rev (takeWhile isspace (rev query)))]"
    if s: "str_strip query \<noteq> []" and c: "KustoClient lib (kcsb self) = Inr kusto_client"
  proof -
    let ?pre = "takeWhile isspace query" and ?suf = "rev (takeWhile isspace (rev query))"
    have pre: "\<forall>c \<in> set ?pre. isspace c" by (auto dest: set_takeWhileD)
    have suf: "\<forall>c \<in> set ?suf. isspace c" by (auto dest: set_takeWhileD)
    have "str_replace_ne (?pre @ str_strip query @ ?suf) (str_strip query) ?new =
          ?pre @ ?new @ ?suf"
      using s strip_decompose(2) [OF s] pre suf by (rule str_replace_ne_padded)
    then have "str_replace_ne query (str_strip query) ?new = ?pre @ ?new @ ?suf"
      using strip_decompose(1) [OF s] by simp
    with s have "str_replace query (str_strip query) ?new = ?pre @ ?new @ ?suf"
      by (simp add: str_replace_def)
    with r have "external_rewrite query = Inr (?pre @ ?new @ ?suf)" by simp
    from sent [OF this c] show ?thesis .
  qed
  have em: "executed (fst (execute_query_external_table lib self database query)) =
      [(database, ''external_table('' @ [CHR 0x22, CHR 0x22] @ '')''
          @ concat (map (\<lambda>c. c # ''external_table('' @ [CHR 0x22, CHR 0x22] @ '')'') query))]"
    if s: "str_strip query = []" and c: "KustoClient lib (kcsb self) = Inr kusto_client"
  proof -
    from r s have "external_rewrite query =
        Inr (''external_table('' @ [CHR 0x22, CHR 0x22] @ '')''
          @ concat (map (\<lambda>c. c # ''external_table('' @ [CHR 0x22, CHR 0x22] @ '')'') query))"
      by (simp add: str_replace_def)
    from sent [OF this c] show ?thesis .
  qed
  from r e ne em show ?thesis by simp
qed

theorem external_rewrite_without_pipe_witness:
  "\<not> startswith ''  StormEvents '' ''.'' \<and> CHR ''|'' \<notin> set ''  StormEvents ''
   \<and> executed (fst (execute_query_external_table echo_sdk local_database ''Contoso''
                      ''  StormEvents '')) =
       [(''Contoso'', ''  external_table('' @ [CHR 0x22] @ ''StormEvents'' @ [CHR 0x22] @ '') '')]
   \<and> executed (fst (execute_query_external_table echo_sdk local_database ''Contoso'' '' '')) =
       [(''Contoso'',
         ''external_table('' @ [CHR 0x22, CHR 0x22] @ '') external_table(''
           @ [CHR 0x22, CHR 0x22] @ '')'')]"
proof -
  have h: "\<not> startswith ''  StormEvents '' ''.''" "CHR ''|'' \<notin> set ''  StormEvents ''"
    by (simp_all add: startswith_def)
  have k: "\<not> startswith '' '' ''.''" "CHR ''|'' \<notin> set '' ''"
    by (simp_all add: startswith_def)
  have s: "str_strip ''  StormEvents '' = ''StormEvents''" "str_strip '' '' = []"
    by (simp_all add: str_strip_def isspace_def)
  have t: "takeWhile isspace ''  StormEvents '' = ''  ''"
    "takeWhile isspace (rev ''  StormEvents '') = '' ''"
    by (simp_all add: isspace_def)
  have c: "KustoClient echo_sdk (kcsb local_database) = Inr (\<lambda>database command. Inr [[[command]]])"
    by (simp add: echo_sdk_def)
  note a = external_rewrite_without_pipe [OF h, of echo_sdk local_database "''Contoso''"
      "\<lambda>database command. Inr [[[command]]]", THEN conjunct2, THEN conjunct2, THEN conjunct1]
  note b = external_rewrite_without_pipe [OF k, of echo_sdk local_database "''Contoso''"
      "\<lambda>database command. Inr [[[command]]]", THEN conjunct2, THEN conjunct2, THEN conjunct2]
  show ?thesis
    using h a b s t c by simp
qed

end
